theory Spec2Isabelle
  imports Main "HOL-Library.AList"
begin

section \<open>Values\<close>

text \<open>
  Python floats are carried around but never computed with: a finite float is
  \<open>m * 2 ^ e\<close>, written \<open>Finite m e\<close>.
\<close>

datatype pyfloat = Finite int int | Infinite bool | NaN

text \<open>
  The values a payload or a decoded frame is made of. A Python \<open>dict\<close> keeps its
  keys in insertion order, so it is an association list; \<open>d[k] = v\<close> is
  \<open>AList.update k v d\<close> (overwrite in place, or append) and \<open>d.get(k)\<close> is
  \<open>map_of d k\<close>. The strings inside values and the keys are \<open>string\<close>s.
\<close>

datatype json =
    JNull
  | JBool bool
  | JInt int
  | JFloat pyfloat
  | JStr string
  | JArr "json list"
  | JObj "(string \<times> json) list"

type_synonym pydict = "(string \<times> json) list"

text \<open>Python's truth value of an object, as \<open>x or y\<close> tests it.\<close>

fun truthy :: "json \<Rightarrow> bool" where
  "truthy JNull = False"
| "truthy (JBool b) = b"
| "truthy (JInt n) = (n \<noteq> 0)"
| "truthy (JFloat (Finite m e)) = (m \<noteq> 0)"
| "truthy (JFloat (Infinite s)) = True"
| "truthy (JFloat NaN) = True"
| "truthy (JStr s) = (s \<noteq> [])"
| "truthy (JArr xs) = (xs \<noteq> [])"
| "truthy (JObj kvs) = (kvs \<noteq> [])"

section \<open>Strings\<close>

text \<open>
  The text of a stream line is a Python \<open>str\<close>: a list of Unicode code points.
  \<open>str\<close> gives the code points of a literal.
\<close>

type_synonym pystr = "nat list"

definition str :: "string \<Rightarrow> pystr" where
  "str s = map of_char s"

text \<open>\<open>str.isspace\<close>: the code points Python counts as whitespace.\<close>

definition isspace :: "nat \<Rightarrow> bool" where
  "isspace c =
     (c \<in> {9, 10, 11, 12, 13, 28, 29, 30, 31, 32, 133, 160, 5760, 8232, 8233, 8239, 8287, 12288}
      \<or> (8192 \<le> c \<and> c \<le> 8202))"

definition strip :: "pystr \<Rightarrow> pystr" where
  "strip s = rev (dropWhile isspace (rev (dropWhile isspace s)))"

definition rstrip_chars :: "char set \<Rightarrow> string \<Rightarrow> string" where
  "rstrip_chars cs s = rev (dropWhile (\<lambda>c. c \<in> cs) (rev s))"

definition startswith :: "'a list \<Rightarrow> 'a list \<Rightarrow> bool" where
  "startswith s p = (take (length p) s = p)"

section \<open>The transport: requests, responses, exceptions\<close>

text \<open>
  A line as \<open>response.iter_lines()\<close> delivers it: bytes. Either the bytes are the
  UTF-8 encoding of a text, or \<open>line.decode('utf-8')\<close> raises. The empty byte string
  is \<open>Encoded []\<close>; bytes that do not decode are never empty.
\<close>

datatype bytes = Encoded pystr | Undecodable

fun nonempty :: "bytes \<Rightarrow> bool" where
  "nonempty (Encoded s) = (s \<noteq> [])"
| "nonempty Undecodable = True"

text \<open>
  How the line iterator ends: the connection closes, or reading fails with a
  \<open>RequestException\<close> whose message is given (it carries no response).
\<close>

datatype stream_end = Closed | Broken string

text \<open>
  The exceptions of Python and its standard library that occur here. None of them is
  a \<open>RequestException\<close>. \<open>JSONDecodeError\<close> is a subclass of \<open>ValueError\<close>;
  \<open>ValueError\<close> stands for the instances that are not a \<open>JSONDecodeError\<close>.
\<close>

datatype builtin =
    JSONDecodeError
  | UnicodeDecodeError
  | RecursionError
  | ValueError
  | TypeError

text \<open>
  What \<open>response.json()\<close> does: it returns the parsed body, it raises
  \<open>requests.exceptions.JSONDecodeError\<close> (a \<open>RequestException\<close>, with the given
  message; this is how \<open>requests\<close> 2.27 and later reports a body that is not JSON),
  or it raises an exception of the standard library that it does not convert (a
  \<open>RecursionError\<close> on a deeply nested body, a \<open>ValueError\<close> on an integer beyond
  the digit limit, the \<open>JSONDecodeError\<close> of the \<open>json\<close> module with an older
  \<open>requests\<close>).
\<close>

datatype json_call = Returns json | RaisesRequests string | RaisesBuiltin builtin

text \<open>
  A response of the \<open>requests\<close> library: its status, what \<open>response.json()\<close> does,
  and what \<open>response.iter_lines()\<close> delivers.
\<close>

record response =
  status_code :: int
  json_result :: json_call
  iter_lines :: "bytes list"
  iter_end :: stream_end

text \<open>
  The exceptions of the model. \<open>RequestException m r\<close> stands for the whole class
  \<open>requests.exceptions.RequestException\<close>: \<open>m\<close> is \<open>str(e)\<close> and \<open>r\<close> is
  \<open>e.response\<close>.
\<close>

datatype exn =
    RequestException string "response option"
  | Builtin builtin

fun decode_utf8 :: "bytes \<Rightarrow> exn + pystr" where
  "decode_utf8 (Encoded s) = Inr s"
| "decode_utf8 Undecodable = Inl (Builtin UnicodeDecodeError)"

text \<open>The arguments of one \<open>session.post(url, json=data, stream=...)\<close>.\<close>

record http_request =
  post_url :: string
  post_json :: pydict
  post_stream :: bool

text \<open>
  What \<open>session.post\<close> does with a request: it raises a \<open>RequestException\<close> that
  carries no response (connection refused, timeout, DNS failure; the message is
  given), or it returns a response.
\<close>

datatype post_outcome = Fails string | Responds response

text \<open>
  \<open>response.raise_for_status()\<close> of the library: an \<open>HTTPError\<close> carrying the
  response for the statuses from 400 to 599, nothing otherwise. The message of a
  library exception is the library's own text; the model writes the name of the
  exception class in its place.
\<close>

definition raise_for_status :: "response \<Rightarrow> exn option" where
  "raise_for_status r =
     (if 400 \<le> status_code r \<and> status_code r < 600
      then Some (RequestException ''HTTPError'' (Some r)) else None)"

definition response_json :: "response \<Rightarrow> exn + json" where
  "response_json r =
     (case json_result r of
        Returns v \<Rightarrow> Inr v
      | RaisesRequests m \<Rightarrow> Inl (RequestException m None)
      | RaisesBuiltin b \<Rightarrow> Inl (Builtin b))"

section \<open>The error envelope\<close>

text \<open>
  The dictionary both handlers build. \<open>status_code\<close> is
  \<open>getattr(e.response, 'status_code', None) if hasattr(e, 'response') else None\<close>;
  every \<open>RequestException\<close> has the attribute \<open>response\<close>.
\<close>

definition status_of :: "response option \<Rightarrow> json" where
  "status_of r = (case r of None \<Rightarrow> JNull | Some resp \<Rightarrow> JInt (status_code resp))"

definition error_envelope :: "string \<Rightarrow> string \<Rightarrow> response option \<Rightarrow> json" where
  "error_envelope ty msg r =
     JObj [(''error'',
            JObj [(''type'', JStr ty), (''message'', JStr msg), (''status_code'', status_of r)])]"

section \<open>The stream decoder\<close>

text \<open>
  What the generator yields, tagged with the \<open>yield\<close> statement that produced it:
  \<open>StreamEvent\<close> for the one in the loop, \<open>ErrorEnvelope\<close> for the one in the
  handler. In Python both are plain dictionaries; \<open>payload\<close> is that value.
\<close>

datatype item = StreamEvent json | ErrorEnvelope json

fun payload :: "item \<Rightarrow> json" where
  "payload (StreamEvent v) = v"
| "payload (ErrorEnvelope v) = v"

text \<open>
  The body of the \<open>for\<close> loop of \<open>_stream_request\<close>, over the lines the iterator
  delivers. The result is the events yielded and how the loop is left: \<open>None\<close> for a
  normal exit (\<open>break\<close> or the iterator is exhausted), \<open>Some e\<close> when \<open>e\<close> is
  raised. \<open>loads\<close> is \<open>json.loads\<close>: the value it returns or the exception it
  raises. The inner handler catches \<open>JSONDecodeError\<close> and nothing else; decoding
  the line is outside the inner \<open>try\<close>.
\<close>

fun for_lines ::
  "(pystr \<Rightarrow> builtin + json) \<Rightarrow> bytes list \<Rightarrow> stream_end \<Rightarrow> json list \<times> exn option" where
  "for_lines loads [] Closed = ([], None)"
| "for_lines loads [] (Broken m) = ([], Some (RequestException m None))"
| "for_lines loads (line # rest) fin =
     (if nonempty line then
        (case decode_utf8 line of
           Inl e \<Rightarrow> ([], Some e)
         | Inr text \<Rightarrow>
             if startswith text (str ''data: '') then
               (let data_str = drop 6 text in
                if strip data_str = str ''[DONE]'' then ([], None)
                else
                  (case loads data_str of
                     Inl JSONDecodeError \<Rightarrow> for_lines loads rest fin
                   | Inl e \<Rightarrow> ([], Some (Builtin e))
                   | Inr v \<Rightarrow>
                       (case for_lines loads rest fin of (evs, r) \<Rightarrow> (v # evs, r))))
             else for_lines loads rest fin)
      else for_lines loads rest fin)"

section \<open>The request model\<close>

record ChatMessage =
  role :: string
  content :: string

record OpenAIRequest =
  messages :: "ChatMessage list"
  model :: string
  max_tokens :: "int option"
  temperature :: pyfloat
  stream :: bool

text \<open>
  \<open>inputs\<close> is declared \<open>Dict = None\<close>: the field holds \<open>None\<close> (\<open>JNull\<close>) or
  whatever the caller passed.
\<close>

record DifyRequest =
  query :: string
  user :: string
  conversation_id :: string
  inputs :: json
  response_mode :: string

definition post_init :: "DifyRequest \<Rightarrow> DifyRequest" where
  "post_init self = (if inputs self = JNull then self\<lparr>inputs := JObj []\<rparr> else self)"

text \<open>
  The constructor the dataclass generates: an optional argument is \<open>None\<close> when the
  caller leaves it out, and the declared default is taken; then \<open>__post_init__\<close>.
\<close>

definition new_DifyRequest ::
  "string \<Rightarrow> string \<Rightarrow> string option \<Rightarrow> json option \<Rightarrow> string option \<Rightarrow> DifyRequest" where
  "new_DifyRequest q u cid inp mode =
     post_init
       \<lparr>query = q, user = u,
        conversation_id = (case cid of None \<Rightarrow> [] | Some c \<Rightarrow> c),
        inputs = (case inp of None \<Rightarrow> JNull | Some v \<Rightarrow> v),
        response_mode = (case mode of None \<Rightarrow> ''blocking'' | Some m \<Rightarrow> m)\<rparr>"

text \<open>\<open>dataclasses.asdict\<close>: a new dictionary, the fields in declaration order.\<close>

definition asdict_message :: "ChatMessage \<Rightarrow> json" where
  "asdict_message m = JObj [(''role'', JStr (role m)), (''content'', JStr (content m))]"

definition asdict_openai :: "OpenAIRequest \<Rightarrow> pydict" where
  "asdict_openai r =
     [(''messages'', JArr (map asdict_message (messages r))),
      (''model'', JStr (model r)),
      (''max_tokens'', (case max_tokens r of None \<Rightarrow> JNull | Some n \<Rightarrow> JInt n)),
      (''temperature'', JFloat (temperature r)),
      (''stream'', JBool (stream r))]"

definition asdict_dify :: "DifyRequest \<Rightarrow> pydict" where
  "asdict_dify r =
     [(''query'', JStr (query r)),
      (''user'', JStr (user r)),
      (''conversation_id'', JStr (conversation_id r)),
      (''inputs'', inputs r),
      (''response_mode'', JStr (response_mode r))]"

section \<open>Objects and the world\<close>

text \<open>
  The adapters receive references. The objects they can reach live in a heap, a
  reference is an index into it, and a new object is appended. \<open>sent\<close> records every
  \<open>session.post\<close>, in order.
\<close>

datatype obj = Dict pydict | Dify DifyRequest | OpenAI OpenAIRequest

type_synonym addr = nat

record world =
  heap :: "obj list"
  sent :: "http_request list"

definition deref :: "world \<Rightarrow> addr \<Rightarrow> obj option" where
  "deref w a = (if a < length (heap w) then Some (heap w ! a) else None)"

definition alloc :: "obj \<Rightarrow> world \<Rightarrow> addr \<times> world" where
  "alloc x w = (length (heap w), w\<lparr>heap := heap w @ [x]\<rparr>)"

definition store :: "addr \<Rightarrow> obj \<Rightarrow> world \<Rightarrow> world" where
  "store a x w = w\<lparr>heap := (heap w)[a := x]\<rparr>"

section \<open>The client\<close>

text \<open>
  The fields of \<open>DataFlowClient\<close> the chat operations read: the base URL and the
  session, which is what its \<open>post\<close> does with a request. The constructor strips
  the trailing slashes of the base URL; the headers it sets on the session play no part
  in what follows and are left out.
\<close>

record client =
  base_url :: string
  session_post :: "http_request \<Rightarrow> post_outcome"

definition DataFlowClient :: "string \<Rightarrow> (http_request \<Rightarrow> post_outcome) \<Rightarrow> client" where
  "DataFlowClient base sess = \<lparr>base_url = rstrip_chars {CHR ''/''} base, session_post = sess\<rparr>"

definition do_post :: "client \<Rightarrow> http_request \<Rightarrow> world \<Rightarrow> post_outcome \<times> world" where
  "do_post self req w = (session_post self req, w\<lparr>sent := sent w @ [req]\<rparr>)"

subsection \<open>\<open>_blocking_request\<close>\<close>

text \<open>
  The \<open>try\<close> block and the handler. The methods only read \<open>data\<close>, so they take
  the contents the dictionary has at the call.
\<close>

definition blocking_try :: "post_outcome \<Rightarrow> exn + json" where
  "blocking_try out =
     (case out of
        Fails m \<Rightarrow> Inl (RequestException m None)
      | Responds r \<Rightarrow>
          (case raise_for_status r of Some e \<Rightarrow> Inl e | None \<Rightarrow> response_json r))"

fun blocking_except :: "exn + json \<Rightarrow> exn + json" where
  "blocking_except (Inr v) = Inr v"
| "blocking_except (Inl (RequestException m r)) = Inr (error_envelope ''request_failed'' m r)"
| "blocking_except (Inl e) = Inl e"

definition blocking_request :: "client \<Rightarrow> string \<Rightarrow> pydict \<Rightarrow> world \<Rightarrow> (exn + json) \<times> world" where
  "blocking_request self u data w =
     (case do_post self \<lparr>post_url = u, post_json = data, post_stream = False\<rparr> w of
        (out, w') \<Rightarrow> (blocking_except (blocking_try out), w'))"

subsection \<open>\<open>_stream_request\<close>\<close>

text \<open>
  The generator is modelled by its complete run, as a caller that drains it sees it:
  the elements yielded in order, and how it ends (\<open>None\<close>: it is exhausted,
  \<open>Some e\<close>: \<open>e\<close> reaches the caller).
\<close>

definition stream_try :: "(pystr \<Rightarrow> builtin + json) \<Rightarrow> post_outcome \<Rightarrow> json list \<times> exn option" where
  "stream_try loads out =
     (case out of
        Fails m \<Rightarrow> ([], Some (RequestException m None))
      | Responds r \<Rightarrow>
          (case raise_for_status r of
             Some e \<Rightarrow> ([], Some e)
           | None \<Rightarrow> for_lines loads (iter_lines r) (iter_end r)))"

fun stream_except :: "json list \<times> exn option \<Rightarrow> item list \<times> exn option" where
  "stream_except (evs, None) = (map StreamEvent evs, None)"
| "stream_except (evs, Some (RequestException m r)) =
     (map StreamEvent evs @ [ErrorEnvelope (error_envelope ''stream_failed'' m r)], None)"
| "stream_except (evs, Some e) = (map StreamEvent evs, Some e)"

definition stream_request ::
  "(pystr \<Rightarrow> builtin + json) \<Rightarrow> client \<Rightarrow> string \<Rightarrow> pydict \<Rightarrow> world \<Rightarrow> (item list \<times> exn option) \<times> world" where
  "stream_request loads self u data w =
     (case do_post self \<lparr>post_url = u, post_json = data, post_stream = True\<rparr> w of
        (out, w') \<Rightarrow> (stream_except (stream_try loads out), w'))"


section \<open>The protocol adapters\<close>

text \<open>
  What a chat operation hands back: the dictionary of a blocking call, the run of the
  generator of a streaming call, or an exception that reaches the caller.
\<close>

datatype reply = Returned json | Generator "item list" "exn option" | Raised exn

fun blocking :: "(exn + json) \<times> world \<Rightarrow> reply \<times> world" where
  "blocking (Inr v, w) = (Returned v, w)"
| "blocking (Inl e, w) = (Raised e, w)"

fun streaming :: "(item list \<times> exn option) \<times> world \<Rightarrow> reply \<times> world" where
  "streaming ((ys, fin), w) = (Generator ys fin, w)"

definition chat_openai ::
  "(pystr \<Rightarrow> builtin + json) \<Rightarrow> client \<Rightarrow> string \<Rightarrow> addr \<Rightarrow> world \<Rightarrow> reply \<times> world" where
  "chat_openai loads self agent_id request w =
     (case deref w request of
        Some (OpenAI r) \<Rightarrow>
          (let u = base_url self @ ''/api/v1/openai/chat/completions?agent_id='' @ agent_id in
           case alloc (Dict (asdict_openai r)) w of
             (data, w1) \<Rightarrow>
               if stream r then streaming (stream_request loads self u (asdict_openai r) w1)
               else blocking (blocking_request self u (asdict_openai r) w1))
      | _ \<Rightarrow> (Raised (Builtin TypeError), w))"

definition chat_dify ::
  "(pystr \<Rightarrow> builtin + json) \<Rightarrow> client \<Rightarrow> string \<Rightarrow> addr \<Rightarrow> world \<Rightarrow> reply \<times> world" where
  "chat_dify loads self agent_id request w =
     (case deref w request of
        Some (Dify r) \<Rightarrow>
          (let u = base_url self @ ''/api/v1/dify/chat-messages?agent_id='' @ agent_id in
           case alloc (Dict (asdict_dify r)) w of
             (data, w1) \<Rightarrow>
               if response_mode r = ''streaming''
               then streaming (stream_request loads self u (asdict_dify r) w1)
               else blocking (blocking_request self u (asdict_dify r) w1))
      | _ \<Rightarrow> (Raised (Builtin TypeError), w))"

text \<open>\<open>data[key] = value\<close> on the dictionary a reference points to.\<close>

definition setitem :: "addr \<Rightarrow> string \<Rightarrow> json \<Rightarrow> world \<Rightarrow> exn + world" where
  "setitem a k v w =
     (case deref w a of
        Some (Dict d) \<Rightarrow> Inr (store a (Dict (AList.update k v d)) w)
      | _ \<Rightarrow> Inl (Builtin TypeError))"

definition contents :: "world \<Rightarrow> addr \<Rightarrow> exn + pydict" where
  "contents w a = (case deref w a of Some (Dict d) \<Rightarrow> Inr d | _ \<Rightarrow> Inl (Builtin TypeError))"

definition chat_dify_workflow ::
  "(pystr \<Rightarrow> builtin + json) \<Rightarrow> client \<Rightarrow> string \<Rightarrow> addr \<Rightarrow> world \<Rightarrow> reply \<times> world" where
  "chat_dify_workflow loads self agent_id request w =
     (case deref w request of
        Some (Dify r) \<Rightarrow>
          (let u = base_url self @ ''/api/v1/dify/workflows/run'' in
           case alloc (Dict (asdict_dify r)) w of
             (data, w1) \<Rightarrow>
               (case setitem data ''agent_id'' (JStr agent_id) w1 of
                  Inl e \<Rightarrow> (Raised e, w1)
                | Inr w2 \<Rightarrow>
                    (case contents w2 data of
                       Inl e \<Rightarrow> (Raised e, w2)
                     | Inr d \<Rightarrow>
                         if response_mode r = ''streaming''
                         then streaming (stream_request loads self u d w2)
                         else blocking (blocking_request self u d w2))))
      | _ \<Rightarrow> (Raised (Builtin TypeError), w))"

text \<open>
  \<open>data.get('stream', False) or data.get('response_mode') == 'streaming'\<close>, as the
  \<open>if\<close> tests it.
\<close>

definition is_streaming :: "pydict \<Rightarrow> bool" where
  "is_streaming d =
     (truthy (case map_of d ''stream'' of None \<Rightarrow> JBool False | Some v \<Rightarrow> v)
      \<or> map_of d ''response_mode'' = Some (JStr ''streaming''))"

definition chat_universal ::
  "(pystr \<Rightarrow> builtin + json) \<Rightarrow> client \<Rightarrow> string \<Rightarrow> addr \<Rightarrow> world \<Rightarrow> reply \<times> world" where
  "chat_universal loads self agent_id data w =
     (let u = base_url self @ ''/api/v1/chat'' in
      case setitem data ''agent_id'' (JStr agent_id) w of
        Inl e \<Rightarrow> (Raised e, w)
      | Inr w1 \<Rightarrow>
          (case contents w1 data of
             Inl e \<Rightarrow> (Raised e, w1)
           | Inr d \<Rightarrow>
               if is_streaming d then streaming (stream_request loads self u d w1)
               else blocking (blocking_request self u d w1)))"

section \<open>Vocabulary of the properties\<close>

text \<open>
  The decoder as the specification words it: of the lines before the first frame
  whose stripped content is the completion sentinel, those that begin with the
  prefix \<open>data: \<close> are parsed, and the ones that parse are emitted in order.
  \<open>texts\<close> are the lines as text.
\<close>

definition done_frame :: "pystr \<Rightarrow> bool" where
  "done_frame l = (startswith l (str ''data: '') \<and> strip (drop 6 l) = str ''[DONE]'')"

definition parsed :: "(pystr \<Rightarrow> builtin + json) \<Rightarrow> pystr \<Rightarrow> json option" where
  "parsed loads l =
     (if startswith l (str ''data: '')
      then (case loads (drop 6 l) of Inr v \<Rightarrow> Some v | Inl e \<Rightarrow> None)
      else None)"

definition spec_decode :: "(pystr \<Rightarrow> builtin + json) \<Rightarrow> pystr list \<Rightarrow> json list" where
  "spec_decode loads ls =
     List.map_filter (parsed loads) (takeWhile (\<lambda>l. \<not> done_frame l) ls)"

definition texts :: "bytes list \<Rightarrow> pystr list" where
  "texts bs = List.map_filter (\<lambda>b. case b of Encoded l \<Rightarrow> Some l | Undecodable \<Rightarrow> None) bs"

text \<open>
  The line sequences the decoder reads through: every line up to the first sentinel
  decodes as UTF-8, and on every frame before the sentinel \<open>json.loads\<close> returns a
  value or raises \<open>JSONDecodeError\<close>.
\<close>

definition tolerated :: "(pystr \<Rightarrow> builtin + json) \<Rightarrow> pystr \<Rightarrow> bool" where
  "tolerated loads l =
     (if startswith l (str ''data: '')
      then (case loads (drop 6 l) of Inr v \<Rightarrow> True | Inl e \<Rightarrow> e = JSONDecodeError)
      else True)"

fun readable :: "(pystr \<Rightarrow> builtin + json) \<Rightarrow> bytes list \<Rightarrow> bool" where
  "readable loads [] = True"
| "readable loads (Undecodable # rest) = False"
| "readable loads (Encoded l # rest) =
     (if done_frame l then True else tolerated loads l \<and> readable loads rest)"

text \<open>The stream of the specification's example.\<close>

definition example_lines :: "pystr list" where
  \<open>example_lines =
     map str
       [''data: {"a":1}'', '''', ''data: not-json'', ''data: {"b":2}'', ''data: [DONE]'',
        ''data: {"c":3}'']\<close>

text \<open>
  \<open>json.loads\<close> on the payloads used in the concrete runs: the three objects of the
  example; an integer literal of more than 4300 digits, which Python 3.11 and later
  refuses with a \<open>ValueError\<close>; any other text counts as not JSON here. It
  instantiates \<open>loads\<close> in concrete runs only.
\<close>

definition loads_example :: "pystr \<Rightarrow> builtin + json" where
  \<open>loads_example s =
     (if 4300 < length s \<and> list_all (\<lambda>c. 48 \<le> c \<and> c \<le> 57) s then Inl ValueError
      else if s = str ''{"a":1}'' then Inr (JObj [(''a'', JInt 1)])
      else if s = str ''{"b":2}'' then Inr (JObj [(''b'', JInt 2)])
      else if s = str ''{"c":3}'' then Inr (JObj [(''c'', JInt 3)])
      else Inl JSONDecodeError)\<close>

text \<open>A client whose session answers every request the same way.\<close>

definition mock_client :: "post_outcome \<Rightarrow> client" where
  "mock_client out = DataFlowClient ''http://localhost:8082/'' (\<lambda>req. out)"

text \<open>An established stream that delivers the given lines.\<close>

definition stream_response :: "bytes list \<Rightarrow> stream_end \<Rightarrow> response" where
  "stream_response bs fin =
     \<lparr>status_code = 200, json_result = RaisesRequests ''JSONDecodeError'',
      iter_lines = bs, iter_end = fin\<rparr>"

definition example_response :: response where
  "example_response = stream_response (map Encoded example_lines) Closed"

text \<open>A stream that delivers one frame and then breaks.\<close>

definition broken_response :: response where
  \<open>broken_response =
     stream_response [Encoded (str ''data: {"a":1}'')] (Broken ''Connection broken'')\<close>

text \<open>A stream whose second line is not UTF-8.\<close>

definition undecodable_response :: response where
  \<open>undecodable_response =
     stream_response
       [Encoded (str ''data: {"a":1}''), Undecodable, Encoded (str ''data: {"b":2}'')] Closed\<close>

text \<open>A stream whose second frame is an integer of 5000 digits.\<close>

definition long_integer_response :: response where
  \<open>long_integer_response =
     stream_response
       [Encoded (str ''data: {"a":1}''), Encoded (str ''data: '' @ replicate 5000 57),
        Encoded (str ''data: {"b":2}'')] Closed\<close>

definition empty_world :: world where
  "empty_world = \<lparr>heap = [], sent = []\<rparr>"

text \<open>The mapping under the key \<open>error\<close>, when the value is a dictionary that has one.\<close>

definition error_of :: "json \<Rightarrow> pydict option" where
  "error_of v =
     (case v of
        JObj d \<Rightarrow> (case map_of d ''error'' of Some (JObj e) \<Rightarrow> Some e | _ \<Rightarrow> None)
      | _ \<Rightarrow> None)"

fun is_generator :: "reply \<Rightarrow> bool" where
  "is_generator (Generator ys fin) = True"
| "is_generator _ = False"






text \<open>A complete response with the given status and JSON body.\<close>

definition json_response :: "int \<Rightarrow> json \<Rightarrow> response" where
  "json_response s v =
     \<lparr>status_code = s, json_result = Returns v, iter_lines = [], iter_end = Closed\<rparr>"


text \<open>The requests of the examples, and worlds that hold them.\<close>

definition example_request :: DifyRequest where
  "example_request = new_DifyRequest ''q'' ''u'' None None (Some ''streaming'')"



definition streaming_world :: world where
  "streaming_world = \<lparr>heap = [Dict [(''response_mode'', JStr ''streaming'')]], sent = []\<rparr>"

definition shared_world :: world where
  "shared_world =
     \<lparr>heap = [Dict [(''agent_id'', JStr ''old''), (''query'', JStr ''q'')], Dify example_request],
      sent = []\<rparr>"


section \<open>The stream decoder against its specification\<close>

lemma startswith_nonempty: "startswith s (str ''data: '') \<Longrightarrow> s \<noteq> []"
  by (auto simp: startswith_def str_def)

lemma texts_Encoded [simp]: "texts (map Encoded ls) = ls"
  by (induction ls) (simp_all add: texts_def)

lemma replicate_other_length: "n \<noteq> length xs \<Longrightarrow> (replicate n x = xs) = False"
  by auto

lemma for_lines_readable:
  "readable loads bs \<Longrightarrow> for_lines loads bs Closed = (spec_decode loads (texts bs), None)"
proof (induction bs)
  case Nil
  show ?case by (simp add: spec_decode_def texts_def)
next
  case (Cons b bs)
  show ?case
  proof (cases b)
    case Undecodable
    with Cons.prems show ?thesis by simp
  next
    case (Encoded l)
    show ?thesis
    proof (cases "done_frame l")
      case True
      then have "startswith l (str ''data: '')" and "strip (drop 6 l) = str ''[DONE]''"
        by (simp_all add: done_frame_def)
      moreover from this have "l \<noteq> []" by (simp add: startswith_nonempty)
      ultimately show ?thesis
        using Encoded True by (simp add: spec_decode_def texts_def)
    next
      case False
      with Cons.prems Encoded have tol: "tolerated loads l" and "readable loads bs"
        by simp_all
      with Cons.IH have IH: "for_lines loads bs Closed = (spec_decode loads (texts bs), None)"
        by simp
      have step: "spec_decode loads (texts (b # bs)) =
          (case parsed loads l of None \<Rightarrow> spec_decode loads (texts bs)
           | Some v \<Rightarrow> v # spec_decode loads (texts bs))"
        using Encoded False by (simp add: spec_decode_def texts_def split: option.splits)
      show ?thesis
      proof (cases "startswith l (str ''data: '')")
        case no_prefix: False
        then have "parsed loads l = None" by (simp add: parsed_def)
        with no_prefix Encoded IH step show ?thesis by simp
      next
        case prefix: True
        with False have not_done: "strip (drop 6 l) \<noteq> str ''[DONE]''"
          by (simp add: done_frame_def)
        from prefix have ne: "l \<noteq> []" by (rule startswith_nonempty)
        show ?thesis
        proof (cases "loads (drop 6 l)")
          case (Inr v)
          with prefix have "parsed loads l = Some v" by (simp add: parsed_def)
          with Inr prefix not_done ne Encoded IH step show ?thesis by simp
        next
          case (Inl e)
          with tol prefix have e: "e = JSONDecodeError" by (simp add: tolerated_def)
          from Inl prefix have "parsed loads l = None" by (simp add: parsed_def)
          with Inl e prefix not_done ne Encoded IH step show ?thesis by simp
        qed
      qed
    qed
  qed
qed

lemma readable_example:
  assumes \<open>loads (str ''{"a":1}'') = Inr a\<close> and \<open>loads (str ''not-json'') = Inl JSONDecodeError\<close>
    and \<open>loads (str ''{"b":2}'') = Inr b\<close>
  shows "readable loads (map Encoded example_lines)"
    and "spec_decode loads example_lines = [a, b]"
  using assms
  by (simp_all add: spec_decode_def parsed_def tolerated_def example_lines_def done_frame_def
      startswith_def strip_def isspace_def str_def)

text \<open>
  C1, as the code has it. On a stream that is established and closes, if every line up
  to the first completion sentinel is valid UTF-8 and \<open>json.loads\<close> returns a value
  or raises \<open>JSONDecodeError\<close> on every frame before the sentinel, the generator
  yields exactly the values parsed from the lines that bear the prefix \<open>data: \<close>, in
  arrival order, up to the sentinel; blank lines and frames rejected with
  \<open>JSONDecodeError\<close> are passed over, nothing at or after the sentinel is emitted,
  and the generator ends normally. On the lines of the example it yields the value of
  \<open>{"a":1}\<close> and then the value of \<open>{"b":2}\<close>, and nothing else.
\<close>

theorem stream_decoder_yields:
  assumes "session_post self \<lparr>post_url = u, post_json = data, post_stream = True\<rparr> = Responds r"
    and "raise_for_status r = None"
    and "iter_end r = Closed"
  shows \<open>(readable loads (iter_lines r) \<longrightarrow>
       fst (stream_request loads self u data w)
         = (map StreamEvent (spec_decode loads (texts (iter_lines r))), None))
    \<and> (iter_lines r = map Encoded example_lines \<longrightarrow> loads (str ''{"a":1}'') = Inr a \<longrightarrow>
         loads (str ''not-json'') = Inl JSONDecodeError \<longrightarrow> loads (str ''{"b":2}'') = Inr b \<longrightarrow>
         fst (stream_request loads self u data w) = ([StreamEvent a, StreamEvent b], None))\<close>
proof -
  have run: "fst (stream_request loads self u data w)
      = (map StreamEvent (spec_decode loads (texts (iter_lines r))), None)"
    if "readable loads (iter_lines r)"
    using assms that
    by (simp add: stream_request_def do_post_def stream_try_def for_lines_readable)
  show ?thesis
  proof (intro conjI impI)
    assume "readable loads (iter_lines r)"
    then show "fst (stream_request loads self u data w)
        = (map StreamEvent (spec_decode loads (texts (iter_lines r))), None)"
      by (rule run)
  next
    assume ls: "iter_lines r = map Encoded example_lines"
      and l: \<open>loads (str ''{"a":1}'') = Inr a\<close> \<open>loads (str ''not-json'') = Inl JSONDecodeError\<close>
        \<open>loads (str ''{"b":2}'') = Inr b\<close>
    from readable_example [OF l] ls
    have "readable loads (iter_lines r)"
      and "spec_decode loads (texts (iter_lines r)) = [a, b]"
      by simp_all
    with run show "fst (stream_request loads self u data w) = ([StreamEvent a, StreamEvent b], None)"
      by simp
  qed
qed

theorem stream_decoder_yields_witness:
  \<open>readable loads_example (iter_lines example_response)
   \<and> fst (stream_request loads_example (mock_client (Responds example_response))
          ''http://localhost:8082/api/v1/chat'' [] empty_world)
     = ([StreamEvent (JObj [(''a'', JInt 1)]), StreamEvent (JObj [(''b'', JInt 2)])], None)\<close>
proof -
  have 1: "session_post (mock_client (Responds example_response))
      \<lparr>post_url = ''http://localhost:8082/api/v1/chat'', post_json = [], post_stream = True\<rparr>
      = Responds example_response"
    by (simp add: mock_client_def DataFlowClient_def)
  have 2: "raise_for_status example_response = None"
    by (simp add: raise_for_status_def example_response_def stream_response_def)
  have 3: "iter_end example_response = Closed"
    by (simp add: example_response_def stream_response_def)
  have 4: "iter_lines example_response = map Encoded example_lines"
    by (simp add: example_response_def stream_response_def)
  have 5: \<open>loads_example (str ''{"a":1}'') = Inr (JObj [(''a'', JInt 1)])\<close>
    by (simp add: loads_example_def str_def)
  have 6: \<open>loads_example (str ''not-json'') = Inl JSONDecodeError\<close>
    by (simp add: loads_example_def str_def)
  have 7: \<open>loads_example (str ''{"b":2}'') = Inr (JObj [(''b'', JInt 2)])\<close>
    by (simp add: loads_example_def str_def)
  have 8: "readable loads_example (iter_lines example_response)"
    unfolding 4 by (rule readable_example(1) [OF 5 6 7])
  from stream_decoder_yields [OF 1 2 3, where loads = loads_example
      and a = "JObj [(''a'', JInt 1)]" and b = "JObj [(''b'', JInt 2)]" and w = empty_world]
    4 5 6 7 8
  show ?thesis by blast
qed

text \<open>
  C1 as stated fails. A line that is not UTF-8 ends the generator with
  \<open>UnicodeDecodeError\<close>, and so does with \<open>ValueError\<close> a frame that holds an integer
  of 5000 digits: in both streams the frame \<open>{"b":2}\<close> that follows is never
  yielded.
\<close>

theorem stream_dies_on_malformed_frame:
  \<open>fst (stream_request loads_example (mock_client (Responds undecodable_response))
          ''http://localhost:8082/api/v1/chat'' [] empty_world)
     = ([StreamEvent (JObj [(''a'', JInt 1)])], Some (Builtin UnicodeDecodeError))
   \<and> fst (stream_request loads_example (mock_client (Responds long_integer_response))
          ''http://localhost:8082/api/v1/chat'' [] empty_world)
     = ([StreamEvent (JObj [(''a'', JInt 1)])], Some (Builtin ValueError))\<close>
  by (simp add: stream_request_def do_post_def stream_try_def mock_client_def
      DataFlowClient_def undecodable_response_def long_integer_response_def stream_response_def
      raise_for_status_def startswith_def strip_def isspace_def loads_example_def str_def
      replicate_other_length list_all_iff)

section \<open>Where the stream ends\<close>

lemma for_lines_done:
  "done_frame s \<Longrightarrow> for_lines loads (pre @ Encoded s # post) fin = for_lines loads pre Closed"
proof (induction pre)
  case Nil
  then show ?case by (auto simp: done_frame_def dest: startswith_nonempty)
next
  case (Cons l pre)
  then have "for_lines loads (pre @ Encoded s # post) fin = for_lines loads pre Closed"
    by simp
  then show ?case by (simp add: Let_def split: sum.splits builtin.splits)
qed

lemma for_lines_closed: "snd (for_lines loads ls Closed) \<noteq> Some (RequestException m r)"
proof (induction ls)
  case Nil
  show ?case by simp
next
  case (Cons l ls)
  then show ?case
    by (cases l) (auto simp: Let_def split: sum.splits builtin.splits prod.splits)
qed

lemma stream_except_closed:
  "stream_except (for_lines loads ls Closed) =
     (map StreamEvent (fst (for_lines loads ls Closed)), snd (for_lines loads ls Closed))"
proof (cases "for_lines loads ls Closed")
  case (Pair evs fin)
  with for_lines_closed [of loads ls] have "\<And>m r. fin \<noteq> Some (RequestException m r)"
    by simp
  with Pair show ?thesis
    by (cases "(evs, fin)" rule: stream_except.cases) auto
qed

lemma events_no_envelope: "map StreamEvent evs \<noteq> pre @ ErrorEnvelope e # post"
proof
  assume "map StreamEvent evs = pre @ ErrorEnvelope e # post"
  then have "ErrorEnvelope e \<in> set (map StreamEvent evs)" by simp
  then show False by auto
qed

lemma envelope_last:
  assumes "map StreamEvent evs @ [ErrorEnvelope x] = pre @ ErrorEnvelope e # post"
  shows "post = []"
proof (cases post rule: rev_cases)
  case Nil
  then show ?thesis .
next
  case (snoc ys y)
  with assms have "map StreamEvent evs @ [ErrorEnvelope x] = (pre @ ErrorEnvelope e # ys) @ [y]"
    by simp
  then have "map StreamEvent evs = pre @ ErrorEnvelope e # ys"
    by (simp only: append1_eq_conv)
  then show ?thesis by (simp add: events_no_envelope)
qed

lemma stream_except_shape:
  "stream_except t = (pre @ ErrorEnvelope e # post, fin) \<Longrightarrow> post = [] \<and> fin = None"
  by (cases t rule: stream_except.cases) (auto dest: envelope_last simp: events_no_envelope)

text \<open>
  C3. When \<open>session.post\<close> fails before any response arrives, the generator yields
  exactly one element, the envelope built by the handler, whose \<open>error.type\<close> is
  \<open>stream_failed\<close>, and then it is exhausted: no exception reaches the caller.
\<close>

theorem stream_failed_single_envelope:
  assumes "session_post self \<lparr>post_url = u, post_json = data, post_stream = True\<rparr> = Fails m"
  shows "\<exists>v e. fst (stream_request loads self u data w) = ([ErrorEnvelope v], None)
     \<and> error_of v = Some e \<and> map_of e ''type'' = Some (JStr ''stream_failed'')"
  using assms
  by (simp add: stream_request_def do_post_def stream_try_def error_envelope_def error_of_def)

theorem stream_failed_single_envelope_witness:
  "\<exists>v e. fst (stream_request loads_example (mock_client (Fails ''Connection refused''))
       ''http://localhost:8082/api/v1/chat'' [] empty_world) = ([ErrorEnvelope v], None)
     \<and> error_of v = Some e \<and> map_of e ''type'' = Some (JStr ''stream_failed'')"
proof -
  have "session_post (mock_client (Fails ''Connection refused''))
      \<lparr>post_url = ''http://localhost:8082/api/v1/chat'', post_json = [], post_stream = True\<rparr>
      = Fails ''Connection refused''"
    by (simp add: mock_client_def DataFlowClient_def)
  from stream_failed_single_envelope [OF this] show ?thesis .
qed

text \<open>
  C4. In every run of the generator an element yielded by the handler is the last
  one, and the generator is exhausted after it. When the stream delivers a completion
  sentinel, the run is the run over the lines before it: nothing is yielded at or after
  the sentinel, and whatever follows it on the connection is never read.
\<close>

theorem stream_ends_at_terminal:
  "(fst (fst (stream_request loads self u data w)) = pre @ ErrorEnvelope e # post \<longrightarrow>
      post = [] \<and> snd (fst (stream_request loads self u data w)) = None)
   \<and> (session_post self \<lparr>post_url = u, post_json = data, post_stream = True\<rparr> = Responds r \<longrightarrow>
      raise_for_status r = None \<longrightarrow> iter_lines r = before @ Encoded s # after \<longrightarrow>
      done_frame s \<longrightarrow>
      fst (stream_request loads self u data w) =
        (map StreamEvent (fst (for_lines loads before Closed)),
         snd (for_lines loads before Closed)))"
proof (intro conjI impI)
  assume "fst (fst (stream_request loads self u data w)) = pre @ ErrorEnvelope e # post"
  then have "stream_except (stream_try loads
        (session_post self \<lparr>post_url = u, post_json = data, post_stream = True\<rparr>))
      = (pre @ ErrorEnvelope e # post, snd (fst (stream_request loads self u data w)))"
    by (simp add: stream_request_def do_post_def prod_eq_iff)
  from stream_except_shape [OF this]
  show "post = []" and "snd (fst (stream_request loads self u data w)) = None"
    by simp_all
next
  assume "session_post self \<lparr>post_url = u, post_json = data, post_stream = True\<rparr> = Responds r"
    and "raise_for_status r = None" and "iter_lines r = before @ Encoded s # after"
    and "done_frame s"
  then show "fst (stream_request loads self u data w) =
        (map StreamEvent (fst (for_lines loads before Closed)),
         snd (for_lines loads before Closed))"
    by (simp add: stream_request_def do_post_def stream_try_def for_lines_done
        stream_except_closed)
qed

theorem stream_ends_at_terminal_witness:
  \<open>fst (stream_request loads_example (mock_client (Responds broken_response))
          ''http://localhost:8082/api/v1/chat'' [] empty_world)
     = ([StreamEvent (JObj [(''a'', JInt 1)]),
         ErrorEnvelope (error_envelope ''stream_failed'' ''Connection broken'' None)], None)
   \<and> fst (stream_request loads_example (mock_client (Responds example_response))
          ''http://localhost:8082/api/v1/chat'' [] empty_world)
     = ([StreamEvent (JObj [(''a'', JInt 1)]), StreamEvent (JObj [(''b'', JInt 2)])], None)\<close>
proof -
  let ?u = "''http://localhost:8082/api/v1/chat''"
  let ?broken = "stream_request loads_example (mock_client (Responds broken_response)) ?u []
      empty_world"
  let ?example = "stream_request loads_example (mock_client (Responds example_response)) ?u []
      empty_world"
  let ?env = "error_envelope ''stream_failed'' ''Connection broken'' None"
  have ys: \<open>fst (fst ?broken) = [StreamEvent (JObj [(''a'', JInt 1)])] @ ErrorEnvelope ?env # []\<close>
    by (simp add: stream_request_def do_post_def stream_try_def mock_client_def
        DataFlowClient_def broken_response_def stream_response_def raise_for_status_def
        startswith_def strip_def isspace_def loads_example_def str_def)
  with stream_ends_at_terminal [where loads = loads_example
      and self = "mock_client (Responds broken_response)" and u = ?u and data = "[]"
      and w = empty_world and pre = "[StreamEvent (JObj [(''a'', JInt 1)])]" and e = ?env
      and post = "[]"]
  have "snd (fst ?broken) = None" by blast
  with ys have one: \<open>fst ?broken = ([StreamEvent (JObj [(''a'', JInt 1)]), ErrorEnvelope ?env], None)\<close>
    by (simp add: prod_eq_iff)
  have 1: "session_post (mock_client (Responds example_response))
      \<lparr>post_url = ?u, post_json = [], post_stream = True\<rparr> = Responds example_response"
    by (simp add: mock_client_def DataFlowClient_def)
  have 2: "raise_for_status example_response = None"
    by (simp add: raise_for_status_def example_response_def stream_response_def)
  have 3: \<open>iter_lines example_response =
      map Encoded (take 4 example_lines) @ Encoded (str ''data: [DONE]'')
        # map Encoded (drop 5 example_lines)\<close>
    by (simp add: example_response_def stream_response_def example_lines_def)
  have 4: "done_frame (str ''data: [DONE]'')"
    by (simp add: done_frame_def startswith_def strip_def isspace_def str_def)
  have 5: \<open>for_lines loads_example (map Encoded (take 4 example_lines)) Closed
      = ([JObj [(''a'', JInt 1)], JObj [(''b'', JInt 2)]], None)\<close>
    by (simp add: example_lines_def startswith_def strip_def isspace_def loads_example_def
        str_def)
  from stream_ends_at_terminal [where loads = loads_example
      and self = "mock_client (Responds example_response)" and u = ?u and data = "[]"
      and w = empty_world and r = example_response
      and before = "map Encoded (take 4 example_lines)" and s = "str ''data: [DONE]''"
      and after = "map Encoded (drop 5 example_lines)"] 1 2 3 4
  have "fst ?example =
      (map StreamEvent (fst (for_lines loads_example (map Encoded (take 4 example_lines)) Closed)),
       snd (for_lines loads_example (map Encoded (take 4 example_lines)) Closed))"
    by blast
  with 5 have two: \<open>fst ?example
      = ([StreamEvent (JObj [(''a'', JInt 1)]), StreamEvent (JObj [(''b'', JInt 2)])], None)\<close>
    by simp
  from one two show ?thesis by simp
qed

section \<open>Blocking requests\<close>

text \<open>
  C2, as the code has it. When the \<open>try\<close> block of a blocking request raises a
  \<open>RequestException\<close> that carries no response, the call returns an envelope whose
  \<open>error.type\<close> is \<open>request_failed\<close> and whose error mapping has the key
  \<open>status_code\<close>, bound to \<open>None\<close>.
\<close>

theorem blocking_no_response_status_null:
  assumes "blocking_try (session_post self \<lparr>post_url = u, post_json = data, post_stream = False\<rparr>)
           = Inl (RequestException m None)"
  shows "\<exists>v e. fst (blocking_request self u data w) = Inr v \<and> error_of v = Some e
     \<and> map_of e ''type'' = Some (JStr ''request_failed'')
     \<and> map_of e ''status_code'' = Some JNull"
  using assms
  by (simp add: blocking_request_def do_post_def error_envelope_def status_of_def error_of_def)

theorem blocking_no_response_status_null_witness:
  "\<exists>v e. fst (blocking_request (mock_client (Fails ''Connection refused''))
          ''http://localhost:8082/api/v1/chat'' [] empty_world) = Inr v \<and> error_of v = Some e
     \<and> map_of e ''type'' = Some (JStr ''request_failed'')
     \<and> map_of e ''status_code'' = Some JNull"
proof -
  have "blocking_try (session_post (mock_client (Fails ''Connection refused''))
      \<lparr>post_url = ''http://localhost:8082/api/v1/chat'', post_json = [], post_stream = False\<rparr>)
      = Inl (RequestException ''Connection refused'' None)"
    by (simp add: mock_client_def DataFlowClient_def blocking_try_def)
  from blocking_no_response_status_null [OF this] show ?thesis .
qed

text \<open>
  C2 as stated fails: against a host that refuses the connection the key
  \<open>status_code\<close> is in the error mapping, with the value \<open>None\<close>.
\<close>

theorem blocking_status_code_present:
  "fst (blocking_request (mock_client (Fails ''Connection refused''))
          ''http://localhost:8082/api/v1/chat'' [(''query'', JStr ''hi'')] empty_world)
   = Inr (JObj [(''error'',
            JObj [(''type'', JStr ''request_failed''), (''message'', JStr ''Connection refused''),
                  (''status_code'', JNull)])])
   \<and> ''status_code'' \<in> dom (map_of [(''type'', JStr ''request_failed''),
          (''message'', JStr ''Connection refused''), (''status_code'', JNull)])"
  by (simp add: blocking_request_def do_post_def blocking_try_def error_envelope_def status_of_def
      mock_client_def DataFlowClient_def)

text \<open>
  C6, as the code has it. When the response of a blocking request has a status from
  400 to 599, the statuses \<open>raise_for_status\<close> rejects, the call returns an envelope
  whose \<open>error.status_code\<close> is that status.
\<close>

theorem blocking_http_error_status:
  assumes "session_post self \<lparr>post_url = u, post_json = data, post_stream = False\<rparr> = Responds r"
    and "400 \<le> status_code r" and "status_code r < 600"
  shows "\<exists>v e. fst (blocking_request self u data w) = Inr v \<and> error_of v = Some e
     \<and> map_of e ''type'' = Some (JStr ''request_failed'')
     \<and> map_of e ''status_code'' = Some (JInt (status_code r))"
  using assms
  by (simp add: blocking_request_def do_post_def blocking_try_def raise_for_status_def
      error_envelope_def status_of_def error_of_def)

theorem blocking_http_error_status_witness:
  "\<exists>v e. fst (blocking_request
        (mock_client (Responds (json_response 404 (JObj [(''detail'', JStr ''Not Found'')]))))
        ''http://localhost:8082/api/v1/chat'' [] empty_world) = Inr v \<and> error_of v = Some e
     \<and> map_of e ''type'' = Some (JStr ''request_failed'')
     \<and> map_of e ''status_code'' = Some (JInt 404)"
proof -
  let ?r = "json_response 404 (JObj [(''detail'', JStr ''Not Found'')])"
  have 1: "session_post (mock_client (Responds ?r))
      \<lparr>post_url = ''http://localhost:8082/api/v1/chat'', post_json = [], post_stream = False\<rparr>
      = Responds ?r"
    by (simp add: mock_client_def DataFlowClient_def)
  have 2: "400 \<le> status_code ?r" and 3: "status_code ?r < 600"
    by (simp_all add: json_response_def)
  have 4: "status_code ?r = 404"
    by (simp add: json_response_def)
  from blocking_http_error_status [OF 1 2 3, of empty_world] 4 show ?thesis by simp
qed

text \<open>
  C6 as stated fails: a response with status 302 and a JSON body is returned as it
  is; the value is no envelope and carries no status.
\<close>

theorem blocking_status_302_returned:
  "status_code (json_response 302 (JObj [(''location'', JStr ''/login'')])) = 302
   \<and> fst (blocking_request
          (mock_client (Responds (json_response 302 (JObj [(''location'', JStr ''/login'')]))))
          ''http://localhost:8082/api/v1/chat'' [(''query'', JStr ''hi'')] empty_world)
     = Inr (JObj [(''location'', JStr ''/login'')])
   \<and> error_of (JObj [(''location'', JStr ''/login'')]) = None"
  by (simp add: blocking_request_def do_post_def blocking_try_def error_of_def json_response_def
      mock_client_def DataFlowClient_def raise_for_status_def response_json_def)

section \<open>The adapters\<close>

lemma world_blocking [simp]:
  "snd (blocking (blocking_request self u d w)) =
     w\<lparr>sent := sent w @ [\<lparr>post_url = u, post_json = d, post_stream = False\<rparr>]\<rparr>"
  by (cases "blocking_except (blocking_try
        (session_post self \<lparr>post_url = u, post_json = d, post_stream = False\<rparr>))")
     (simp_all add: blocking_request_def do_post_def)

lemma world_streaming [simp]:
  "snd (streaming (stream_request loads self u d w)) =
     w\<lparr>sent := sent w @ [\<lparr>post_url = u, post_json = d, post_stream = True\<rparr>]\<rparr>"
  by (cases "stream_except (stream_try loads
        (session_post self \<lparr>post_url = u, post_json = d, post_stream = True\<rparr>))")
     (simp_all add: stream_request_def do_post_def)

lemma reply_blocking [simp]: "\<not> is_generator (fst (blocking x))"
  by (cases x rule: blocking.cases) simp_all

lemma reply_streaming [simp]: "is_generator (fst (streaming x))"
  by (cases x rule: streaming.cases) simp_all

lemma setitem_Dict:
  "deref w a = Some (Dict d) \<Longrightarrow> setitem a k v w = Inr (store a (Dict (AList.update k v d)) w)"
  by (simp add: setitem_def)

lemma deref_store_same: "deref w a = Some x \<Longrightarrow> deref (store a y w) a = Some y"
  by (simp add: deref_def store_def split: if_splits)

lemma contents_store: "deref w a = Some x \<Longrightarrow> contents (store a (Dict d) w) a = Inr d"
  by (simp add: contents_def deref_store_same)

lemma deref_sent [simp]: "deref (w\<lparr>sent := s\<rparr>) a = deref w a"
  by (simp add: deref_def)

lemma sent_store [simp]: "sent (store a x w) = sent w"
  by (simp add: store_def)

lemma is_streaming_agent_id [simp]:
  "is_streaming (AList.update ''agent_id'' v d) = is_streaming d"
  by (simp add: is_streaming_def update_conv')

lemma chat_universal_Dict:
  assumes "deref w data = Some (Dict d)"
  shows "chat_universal loads self agent_id data w =
    (let d' = AList.update ''agent_id'' (JStr agent_id) d;
         w1 = store data (Dict d') w;
         u = base_url self @ ''/api/v1/chat''
     in if is_streaming d then streaming (stream_request loads self u d' w1)
        else blocking (blocking_request self u d' w1))"
  using assms by (simp add: chat_universal_def setitem_Dict contents_store Let_def)

lemma chat_dify_workflow_Dify:
  assumes "deref w request = Some (Dify r)"
  shows "chat_dify_workflow loads self agent_id request w =
    (let d' = asdict_dify r @ [(''agent_id'', JStr agent_id)];
         w2 = w\<lparr>heap := heap w @ [Dict d']\<rparr>;
         u = base_url self @ ''/api/v1/dify/workflows/run''
     in if response_mode r = ''streaming'' then streaming (stream_request loads self u d' w2)
        else blocking (blocking_request self u d' w2))"
  using assms
  by (simp add: chat_dify_workflow_def alloc_def setitem_def contents_def deref_def store_def
      asdict_dify_def Let_def)

lemma frame_chat_dify_workflow:
  "take (length (heap w)) (heap (snd (chat_dify_workflow loads self agent_id request w))) = heap w"
  by (simp add: chat_dify_workflow_def alloc_def setitem_def contents_def deref_def store_def
      Let_def split: option.splits obj.splits)

lemma frame_chat_dify:
  "take (length (heap w)) (heap (snd (chat_dify loads self agent_id request w))) = heap w"
  by (simp add: chat_dify_def alloc_def deref_def Let_def split: option.splits obj.splits)

lemma frame_chat_openai:
  "take (length (heap w)) (heap (snd (chat_openai loads self agent_id request w))) = heap w"
  by (simp add: chat_openai_def alloc_def deref_def Let_def split: option.splits obj.splits)

lemma deref_take:
  assumes t: "take (length (heap w)) (heap w') = heap w" and d: "deref w b = Some x"
  shows "deref w' b = Some x"
proof -
  from d have b: "b < length (heap w)" and x: "heap w ! b = x"
    by (auto simp: deref_def split: if_splits)
  from t have "length (take (length (heap w)) (heap w')) = length (heap w)"
    by simp
  then have "length (heap w) \<le> length (heap w')"
    by simp
  moreover from b have "take (length (heap w)) (heap w') ! b = heap w' ! b"
    by simp
  with t have "heap w' ! b = heap w ! b"
    by simp
  ultimately show ?thesis using b x by (simp add: deref_def)
qed

text \<open>
  C7, as the code has it. The universal adapter takes the streaming path exactly when
  the value under \<open>stream\<close> is true as Python tests it (present and not \<open>None\<close>,
  \<open>False\<close>, zero or empty) or \<open>response_mode\<close> equals \<open>streaming\<close>. Each of
  \<open>response_mode\<close> being \<open>streaming\<close> and \<open>stream\<close> being \<open>True\<close> is enough on its
  own, and when \<open>stream\<close> is absent or a boolean the condition is the one claimed.
\<close>

theorem universal_streaming_iff_truthy:
  assumes "deref w data = Some (Dict d)"
  shows "(is_generator (fst (chat_universal loads self agent_id data w)) \<longleftrightarrow>
           truthy (case map_of d ''stream'' of None \<Rightarrow> JBool False | Some v \<Rightarrow> v)
           \<or> map_of d ''response_mode'' = Some (JStr ''streaming''))
    \<and> (map_of d ''response_mode'' = Some (JStr ''streaming'') \<longrightarrow>
          is_generator (fst (chat_universal loads self agent_id data w)))
    \<and> (map_of d ''stream'' = Some (JBool True) \<longrightarrow>
          is_generator (fst (chat_universal loads self agent_id data w)))
    \<and> (map_of d ''stream'' = None \<or> (\<exists>b. map_of d ''stream'' = Some (JBool b)) \<longrightarrow>
          (is_generator (fst (chat_universal loads self agent_id data w)) \<longleftrightarrow>
             map_of d ''stream'' = Some (JBool True)
             \<or> map_of d ''response_mode'' = Some (JStr ''streaming'')))"
proof -
  have "is_generator (fst (chat_universal loads self agent_id data w)) = is_streaming d"
    using assms by (simp add: chat_universal_Dict Let_def)
  then show ?thesis by (auto simp: is_streaming_def)
qed

theorem universal_streaming_iff_truthy_witness:
  "deref streaming_world 0 = Some (Dict [(''response_mode'', JStr ''streaming'')])
   \<and> map_of [(''response_mode'', JStr ''streaming'')] ''stream'' = None
   \<and> is_generator (fst (chat_universal loads_example (mock_client (Responds example_response))
        ''A1'' 0 streaming_world))"
proof -
  have 1: "deref streaming_world 0 = Some (Dict [(''response_mode'', JStr ''streaming'')])"
    by (simp add: deref_def streaming_world_def)
  have 2: "map_of [(''response_mode'', JStr ''streaming'')] ''response_mode''
      = Some (JStr ''streaming'')"
    by simp
  from universal_streaming_iff_truthy [OF 1, of loads_example
      "mock_client (Responds example_response)" "''A1''"] 2
  have "is_generator (fst (chat_universal loads_example (mock_client (Responds example_response))
        ''A1'' 0 streaming_world))"
    by blast
  with 1 show ?thesis by simp
qed

text \<open>
  C7 as stated fails: on the payload \<open>{"stream": "false"}\<close>, where \<open>stream\<close> is not
  \<open>True\<close> and there is no \<open>response_mode\<close>, the adapter takes the streaming path.
\<close>

theorem universal_streams_on_string:
  "is_generator (fst (chat_universal loads_example (mock_client (Fails ''Connection refused''))
        ''A1'' 0 \<lparr>heap = [Dict [(''stream'', JStr ''false'')]], sent = []\<rparr>))
   \<and> map_of [(''stream'', JStr ''false'')] ''stream'' \<noteq> Some (JBool True)
   \<and> map_of [(''stream'', JStr ''false'')] ''response_mode'' \<noteq> Some (JStr ''streaming'')"
  by (simp add: chat_universal_def setitem_def contents_def deref_def store_def is_streaming_def)

text \<open>
  C8. For every request object and agent id, the Dify-workflow adapter posts exactly
  one request; its URL is the base URL followed by \<open>/api/v1/dify/workflows/run\<close> and
  nothing else, so it has no query part, and its body is the serialized request with
  the key \<open>agent_id\<close> bound to the given agent id.
\<close>

theorem workflow_endpoint_and_payload:
  assumes "deref w request = Some (Dify r)"
  shows "\<exists>req. sent (snd (chat_dify_workflow loads self agent_id request w)) = sent w @ [req]
     \<and> post_url req = base_url self @ ''/api/v1/dify/workflows/run''
     \<and> CHR ''?'' \<notin> set (drop (length (base_url self)) (post_url req))
     \<and> post_json req = asdict_dify r @ [(''agent_id'', JStr agent_id)]
     \<and> map_of (post_json req) ''agent_id'' = Some (JStr agent_id)"
  using assms by (simp add: chat_dify_workflow_Dify Let_def asdict_dify_def)

theorem workflow_endpoint_and_payload_witness:
  "\<exists>req. sent (snd (chat_dify_workflow loads_example (mock_client (Responds example_response))
          ''A2'' 1 shared_world)) = [req]
     \<and> post_url req = ''http://localhost:8082/api/v1/dify/workflows/run''
     \<and> map_of (post_json req) ''agent_id'' = Some (JStr ''A2'')"
proof -
  have 1: "deref shared_world 1 = Some (Dify example_request)"
    by (simp add: deref_def shared_world_def)
  have 2: "base_url (mock_client (Responds example_response)) = ''http://localhost:8082''"
    by (simp add: mock_client_def DataFlowClient_def rstrip_chars_def)
  have 3: "sent shared_world = []"
    by (simp add: shared_world_def)
  from workflow_endpoint_and_payload [OF 1, of loads_example
      "mock_client (Responds example_response)" "''A2''"]
  show ?thesis unfolding 2 3 by auto
qed

text \<open>
  C9. A \<open>DifyRequest\<close> constructed without the \<open>inputs\<close> argument, or with \<open>None\<close>
  for it, has the empty dictionary in its \<open>inputs\<close> field, and \<open>asdict\<close> binds the
  key \<open>inputs\<close> to the empty dictionary.
\<close>

theorem dify_inputs_default:
  "inputs (new_DifyRequest q u cid None mode) = JObj []
   \<and> inputs (new_DifyRequest q u cid (Some JNull) mode) = JObj []
   \<and> map_of (asdict_dify (new_DifyRequest q u cid None mode)) ''inputs'' = Some (JObj [])
   \<and> map_of (asdict_dify (new_DifyRequest q u cid (Some JNull) mode)) ''inputs''
       = Some (JObj [])"
  by (simp add: new_DifyRequest_def post_init_def asdict_dify_def)

text \<open>
  C10. \<open>chat_universal\<close> changes the dictionary the caller passed: after the call
  the caller's reference holds the dictionary with \<open>agent_id\<close> bound to the given id,
  whatever it was bound to before, and every other key as it was. The three
  dataclass adapters leave every object that existed before the call, the request
  among them, as it was.
\<close>

theorem universal_mutates_dataclass_copies:
  "(deref w data = Some (Dict d) \<longrightarrow>
      deref (snd (chat_universal loads self agent_id data w)) data
        = Some (Dict (AList.update ''agent_id'' (JStr agent_id) d))
      \<and> map_of (AList.update ''agent_id'' (JStr agent_id) d) ''agent_id'' = Some (JStr agent_id)
      \<and> (k \<noteq> ''agent_id'' \<longrightarrow>
           map_of (AList.update ''agent_id'' (JStr agent_id) d) k = map_of d k))
   \<and> (deref w b = Some x \<longrightarrow>
      deref (snd (chat_openai loads self agent_id request w)) b = Some x
      \<and> deref (snd (chat_dify loads self agent_id request w)) b = Some x
      \<and> deref (snd (chat_dify_workflow loads self agent_id request w)) b = Some x)"
proof (intro conjI impI)
  assume d: "deref w data = Some (Dict d)"
  then have "snd (chat_universal loads self agent_id data w) =
     (store data (Dict (AList.update ''agent_id'' (JStr agent_id) d)) w)
       \<lparr>sent := sent w @ [\<lparr>post_url = base_url self @ ''/api/v1/chat'',
                            post_json = AList.update ''agent_id'' (JStr agent_id) d,
                            post_stream = is_streaming d\<rparr>]\<rparr>"
    by (simp add: chat_universal_Dict Let_def)
  with d show "deref (snd (chat_universal loads self agent_id data w)) data
        = Some (Dict (AList.update ''agent_id'' (JStr agent_id) d))"
    by (simp add: deref_store_same)
  show "map_of (AList.update ''agent_id'' (JStr agent_id) d) ''agent_id'' = Some (JStr agent_id)"
    by (simp add: update_conv')
next
  assume "k \<noteq> ''agent_id''"
  then show "map_of (AList.update ''agent_id'' (JStr agent_id) d) k = map_of d k"
    by (simp add: update_conv')
next
  assume x: "deref w b = Some x"
  show "deref (snd (chat_openai loads self agent_id request w)) b = Some x"
    by (rule deref_take [OF frame_chat_openai x])
  show "deref (snd (chat_dify loads self agent_id request w)) b = Some x"
    by (rule deref_take [OF frame_chat_dify x])
  show "deref (snd (chat_dify_workflow loads self agent_id request w)) b = Some x"
    by (rule deref_take [OF frame_chat_dify_workflow x])
qed

theorem universal_mutates_dataclass_copies_witness:
  "deref (snd (chat_universal loads_example (mock_client (Fails ''Connection refused''))
        ''A1'' 0 shared_world)) 0
     = Some (Dict [(''agent_id'', JStr ''A1''), (''query'', JStr ''q'')])
   \<and> deref (snd (chat_dify_workflow loads_example (mock_client (Fails ''Connection refused''))
        ''A1'' 1 shared_world)) 1
     = Some (Dify example_request)"
proof -
  have 1: "deref shared_world 0 = Some (Dict [(''agent_id'', JStr ''old''), (''query'', JStr ''q'')])"
    by (simp add: deref_def shared_world_def)
  have 2: "deref shared_world 1 = Some (Dify example_request)"
    by (simp add: deref_def shared_world_def)
  have 3: "AList.update ''agent_id'' (JStr ''A1'') [(''agent_id'', JStr ''old''), (''query'', JStr ''q'')]
      = [(''agent_id'', JStr ''A1''), (''query'', JStr ''q'')]"
    by simp
  from universal_mutates_dataclass_copies [where w = shared_world and data = 0
      and d = "[(''agent_id'', JStr ''old''), (''query'', JStr ''q'')]" and loads = loads_example
      and self = "mock_client (Fails ''Connection refused'')" and agent_id = "''A1''"
      and b = 1 and x = "Dify example_request" and request = 1] 1 2
  show ?thesis unfolding 3 by blast
qed

section \<open>Blocking calls through the chat operations\<close>









end
